theory Spec2Isabelle
  imports Complex_Main
begin

section \<open>Numbers and values of the Python program\<close>

text \<open>
  The prices of \<^verbatim>\<open>app.py\<close> are Python and numpy floating-point numbers. They are
  modelled as exact rationals extended with the three special values that the program can
  produce or receive: positive infinity, negative infinity and not-a-number. Rounding,
  overflow of finite results and the sign of zero are not modelled (a zero is the
  positive zero).
\<close>

datatype fl = Fin rat | PInf | NInf | NaN

fun fl_sub :: "fl \<Rightarrow> fl \<Rightarrow> fl" where
  "fl_sub NaN y = NaN"
| "fl_sub x NaN = NaN"
| "fl_sub (Fin a) (Fin b) = Fin (a - b)"
| "fl_sub (Fin a) PInf = NInf"
| "fl_sub (Fin a) NInf = PInf"
| "fl_sub PInf PInf = NaN"
| "fl_sub PInf y = PInf"
| "fl_sub NInf NInf = NaN"
| "fl_sub NInf y = NInf"

fun fl_mul :: "fl \<Rightarrow> fl \<Rightarrow> fl" where
  "fl_mul NaN y = NaN"
| "fl_mul x NaN = NaN"
| "fl_mul (Fin a) (Fin b) = Fin (a * b)"
| "fl_mul (Fin a) PInf = (if 0 < a then PInf else if a < 0 then NInf else NaN)"
| "fl_mul (Fin a) NInf = (if 0 < a then NInf else if a < 0 then PInf else NaN)"
| "fl_mul PInf (Fin b) = (if 0 < b then PInf else if b < 0 then NInf else NaN)"
| "fl_mul NInf (Fin b) = (if 0 < b then NInf else if b < 0 then PInf else NaN)"
| "fl_mul PInf PInf = PInf"
| "fl_mul PInf NInf = NInf"
| "fl_mul NInf PInf = NInf"
| "fl_mul NInf NInf = PInf"

text \<open>
  Division as IEEE 754 defines it, which is what numpy's \<^verbatim>\<open>float64\<close> computes: a
  division by zero is not an error, it gives an infinity, or not-a-number for 0/0.
\<close>

fun fl_div :: "fl \<Rightarrow> fl \<Rightarrow> fl" where
  "fl_div NaN y = NaN"
| "fl_div x NaN = NaN"
| "fl_div (Fin a) (Fin b) =
     (if b \<noteq> 0 then Fin (a / b)
      else if 0 < a then PInf else if a < 0 then NInf else NaN)"
| "fl_div (Fin a) PInf = Fin 0"
| "fl_div (Fin a) NInf = Fin 0"
| "fl_div PInf (Fin b) = (if 0 \<le> b then PInf else NInf)"
| "fl_div NInf (Fin b) = (if 0 \<le> b then NInf else PInf)"
| "fl_div PInf y = NaN"
| "fl_div NInf y = NaN"

text \<open>The comparison \<^verbatim>\<open><=\<close>: false as soon as one side is not-a-number.\<close>

fun fl_le :: "fl \<Rightarrow> fl \<Rightarrow> bool" where
  "fl_le NaN y = False"
| "fl_le x NaN = False"
| "fl_le NInf y = True"
| "fl_le x PInf = True"
| "fl_le (Fin a) (Fin b) = (a \<le> b)"
| "fl_le x y = False"

definition fl_ge :: "fl \<Rightarrow> fl \<Rightarrow> bool" where
  "fl_ge x y = fl_le y x"

text \<open>
  The values found in the provider's dictionaries: \<^verbatim>\<open>None\<close>, a number (Python's
  \<^verbatim>\<open>int\<close> and \<^verbatim>\<open>float\<close> together) or a string.
\<close>

datatype pyval = PNone | PNum fl | PStr string

datatype exn = KeyError string | TypeError | ZeroDivisionError

type_synonym 'v pydict = "(string \<times> 'v) list"

definition and_then :: "exn + 'a \<Rightarrow> ('a \<Rightarrow> exn + 'b) \<Rightarrow> exn + 'b" where
  "and_then r f = (case r of Inl e \<Rightarrow> Inl e | Inr v \<Rightarrow> f v)"

text \<open>\<^verbatim>\<open>d.get(key, default)\<close>: the default only when the key is absent.\<close>

definition get :: "'v pydict \<Rightarrow> string \<Rightarrow> 'v \<Rightarrow> 'v" where
  "get d key dflt = (case map_of d key of None \<Rightarrow> dflt | Some v \<Rightarrow> v)"

text \<open>\<^verbatim>\<open>d[key]\<close>: raises \<^verbatim>\<open>KeyError\<close> when the key is absent.\<close>

definition getitem :: "'v pydict \<Rightarrow> string \<Rightarrow> exn + 'v" where
  "getitem d key = (case map_of d key of None \<Rightarrow> Inl (KeyError key) | Some v \<Rightarrow> Inr v)"

text \<open>Truth value of a Python object in a condition: zero, the empty string and
  \<^verbatim>\<open>None\<close> are false; not-a-number and the infinities are true.\<close>

fun truthy :: "pyval \<Rightarrow> bool" where
  "truthy PNone = False"
| "truthy (PNum x) = (x \<noteq> Fin 0)"
| "truthy (PStr s) = (s \<noteq> [])"

text \<open>Python's \<^verbatim>\<open>-\<close> and \<^verbatim>\<open>/\<close> on two objects of the dictionary: a
  \<^verbatim>\<open>TypeError\<close> unless both are numbers, and a \<^verbatim>\<open>ZeroDivisionError\<close> on a zero
  divisor.\<close>

fun py_sub :: "pyval \<Rightarrow> pyval \<Rightarrow> exn + fl" where
  "py_sub (PNum x) (PNum y) = Inr (fl_sub x y)"
| "py_sub a b = Inl TypeError"

fun py_truediv :: "pyval \<Rightarrow> pyval \<Rightarrow> exn + fl" where
  "py_truediv (PNum x) (PNum y) =
     (if y = Fin 0 then Inl ZeroDivisionError else Inr (fl_div x y))"
| "py_truediv a b = Inl TypeError"

text \<open>The same operators when the right operand is a numpy \<^verbatim>\<open>float64\<close>: the left
  operand must still be a number, and a zero divisor raises nothing.\<close>

fun np_rsub :: "pyval \<Rightarrow> fl \<Rightarrow> exn + fl" where
  "np_rsub (PNum x) y = Inr (fl_sub x y)"
| "np_rsub a y = Inl TypeError"

definition np_truediv :: "fl \<Rightarrow> fl \<Rightarrow> fl" where
  "np_truediv x y = fl_div x y"

section \<open>Sentiment of a headline\<close>

text \<open>
  The VADER analyzer is outside the program: \<^verbatim>\<open>polarity_scores\<close> is a parameter, a
  function from a text to the four scores it returns.
\<close>

record scores =
  neg :: fl
  neu :: fl
  pos :: fl
  compound :: fl

type_synonym analyzer = "string \<Rightarrow> scores"

text \<open>The three emoji literals, as the bytes of the source file.\<close>

definition emoji_positive :: string where
  "emoji_positive = [CHR 0xC3, CHR 0xB0, CHR 0xC5, CHR 0xB8, CHR 0xCB, CHR 0x9C, CHR 0xC5, CHR 0xA0]"

definition emoji_negative :: string where
  "emoji_negative = [CHR 0xC3, CHR 0xB0, CHR 0xC5, CHR 0xB8, CHR 0xCB, CHR 0x9C, CHR 0xC5, CHR 0xB8]"

definition emoji_neutral :: string where
  "emoji_neutral = [CHR 0xC3, CHR 0xB0, CHR 0xC5, CHR 0xB8, CHR 0xCB, CHR 0x9C]"

definition get_sentiment :: "analyzer \<Rightarrow> string \<Rightarrow> string \<times> string \<times> fl" where
  "get_sentiment polarity_scores text =
     (let score = compound (polarity_scores text) in
      if fl_ge score (Fin (5 / 100)) then (''Positive'', emoji_positive, score)
      else if fl_le score (Fin (- (5 / 100))) then (''Negative'', emoji_negative, score)
      else (''Neutral'', emoji_neutral, score))"

section \<open>Price metrics\<close>

text \<open>
  \<^verbatim>\<open>info\<close> is the provider's dictionary of quote fields. The history is a pandas
  \<^verbatim>\<open>DataFrame\<close>: a dictionary from a column's name to the column, one number per
  daily bar.
\<close>

type_synonym dataframe = "fl list pydict"

text \<open>\<^verbatim>\<open>Series.max()\<close> of pandas: not-a-number entries are skipped, and the maximum
  of no entry at all is not-a-number (nothing is raised).\<close>

definition fl_max :: "fl \<Rightarrow> fl \<Rightarrow> fl" where
  "fl_max x y = (if fl_le x y then y else x)"

definition series_max :: "fl list \<Rightarrow> fl" where
  "series_max xs =
     (case filter (\<lambda>x. x \<noteq> NaN) xs of [] \<Rightarrow> NaN | y # ys \<Rightarrow> foldl fl_max y ys)"

definition current_price :: "pyval pydict \<Rightarrow> pyval" where
  "current_price info = get info ''currentPrice'' (get info ''regularMarketPrice'' (PNum (Fin 0)))"

definition previous_close :: "pyval pydict \<Rightarrow> pyval" where
  "previous_close info = get info ''previousClose'' (PNum (Fin 0))"

definition price_change :: "pyval pydict \<Rightarrow> exn + fl" where
  "price_change info = py_sub (current_price info) (previous_close info)"

definition percent_change :: "pyval pydict \<Rightarrow> exn + fl" where
  "percent_change info =
     and_then (price_change info) (\<lambda>price_change.
       if truthy (previous_close info)
       then and_then (py_truediv (PNum price_change) (previous_close info))
              (\<lambda>q. Inr (fl_mul q (Fin 100)))
       else Inr (Fin 0))"

definition high_60d :: "dataframe \<Rightarrow> exn + fl" where
  "high_60d hist = and_then (getitem hist ''High'') (\<lambda>column. Inr (series_max column))"

definition drop_from_high :: "pyval pydict \<Rightarrow> dataframe \<Rightarrow> exn + fl" where
  "drop_from_high info hist =
     and_then (high_60d hist) (\<lambda>high_60d.
     and_then (np_rsub (current_price info) high_60d) (\<lambda>d.
       Inr (fl_mul (np_truediv d high_60d) (Fin 100))))"

text \<open>Lines 58 to 65 in their order: the first statement that raises ends the
  computation.\<close>

record metrics =
  currentPrice :: pyval
  priceChange :: fl
  percentChange :: fl
  periodHigh :: fl
  percentDrawdown :: fl

definition compute_metrics :: "pyval pydict \<Rightarrow> dataframe \<Rightarrow> exn + metrics" where
  "compute_metrics info hist =
     and_then (price_change info) (\<lambda>pc.
     and_then (percent_change info) (\<lambda>pct.
     and_then (high_60d hist) (\<lambda>high.
     and_then (drop_from_high info hist) (\<lambda>dd.
       Inr \<lparr>currentPrice = current_price info, priceChange = pc, percentChange = pct,
            periodHigh = high, percentDrawdown = dd\<rparr>))))"

section \<open>The page\<close>

text \<open>
  What the script writes to the page is a list of elements, in the order of the calls.
  A formatted string is the list of its pieces: literal text, a substituted string, the
  \<^verbatim>\<open>str()\<close> of a dictionary value, a number under a format specification (the
  digits are not rendered) and the text of an exception. The placing of an element in a
  column or an expander is not modelled.
\<close>

datatype frag = Lit string | Sub string | Str pyval | Fmt string pyval | Exc exn

datatype element =
    St_error "frag list"
  | St_warning string
  | St_header "frag list"
  | St_metric string "frag list" "frag list"
  | St_divider
  | St_subheader string
  | St_info pyval
  | St_markdown "frag list"
  | St_write "frag list"

text \<open>A block of statements run so far: the elements written, and the exception that
  ended it, if one did.\<close>

type_synonym run = "element list \<times> exn option"

definition emit :: "element list \<Rightarrow> run" where
  "emit els = (els, None)"

definition raise :: "exn \<Rightarrow> run" where
  "raise e = ([], Some e)"

definition seq :: "run \<Rightarrow> run \<Rightarrow> run" where
  "seq a b = (case snd a of Some e \<Rightarrow> a | None \<Rightarrow> (fst a @ fst b, snd b))"

definition rupee :: string where
  "rupee = [CHR 0xC3, CHR 0xA2, CHR 0xE2, CHR 0x80, CHR 0x9A, CHR 0xC2, CHR 0xB9]"

definition price_metric_elements :: "metrics \<Rightarrow> element list" where
  "price_metric_elements m =
     [St_metric ''Current Price''
        [Lit rupee, Fmt '',.2f'' (currentPrice m)]
        [Fmt '',.2f'' (PNum (priceChange m)), Lit '' ('',
         Fmt ''.2f'' (PNum (percentChange m)), Lit ''%)''],
      St_metric ''60-Day High''
        [Lit rupee, Fmt '',.2f'' (PNum (periodHigh m))]
        [Fmt ''.2f'' (PNum (percentDrawdown m)), Lit ''% Drop'']]"

definition metrics_section :: "pyval pydict \<Rightarrow> dataframe \<Rightarrow> run" where
  "metrics_section info hist =
     (case compute_metrics info hist of
        Inl e \<Rightarrow> raise e
      | Inr m \<Rightarrow>
          seq (emit (price_metric_elements m))
              (case py_truediv (get info ''marketCap'' (PNum (Fin 0))) (PNum (Fin 10000000)) of
                 Inl e \<Rightarrow> raise e
               | Inr cap \<Rightarrow>
                   emit [St_metric ''Market Cap''
                           [Lit rupee, Fmt '',.0f'' (PNum cap), Lit '' Cr''] []]))"

text \<open>The loop over the news items (lines 85 to 91).\<close>

type_synonym newsitem = "string pydict"

definition item_lines :: "string \<Rightarrow> string \<Rightarrow> string \<times> string \<times> fl \<Rightarrow> element list" where
  "item_lines title publisher s =
     (case s of (sentiment_label, sentiment_emoji, score) \<Rightarrow>
       [St_markdown [Lit ''**'', Sub title, Lit ''** ('', Sub publisher, Lit '')''],
        St_write [Lit ''Sentiment: '', Sub sentiment_label, Lit '' '', Sub sentiment_emoji,
                  Lit '' (Score: '', Fmt ''.2f'' (PNum score), Lit '')''],
        St_markdown [Lit ''---'']])"

fun news_loop :: "analyzer \<Rightarrow> newsitem list \<Rightarrow> run" where
  "news_loop polarity_scores [] = emit []"
| "news_loop polarity_scores (item # items) =
     (case getitem item ''title'' of
        Inl e \<Rightarrow> raise e
      | Inr title \<Rightarrow>
         (case getitem item ''publisher'' of
            Inl e \<Rightarrow> raise e
          | Inr publisher \<Rightarrow>
              seq (emit (item_lines title publisher (get_sentiment polarity_scores title)))
                  (news_loop polarity_scores items)))"

definition news_section :: "analyzer \<Rightarrow> newsitem list \<Rightarrow> run" where
  "news_section polarity_scores news =
     (if news \<noteq> [] then news_loop polarity_scores (take 5 news)
      else emit [St_write [Lit ''No recent news found.'']])"

text \<open>The \<^verbatim>\<open>else\<close> branch of the validity check (lines 55 to 104).\<close>

definition core_emoji :: string where
  "core_emoji = [CHR 0xC3, CHR 0xB0, CHR 0xC5, CHR 0xB8, CHR 0xC2, CHR 0xA2]"

definition news_emoji :: string where
  "news_emoji = [CHR 0xC3, CHR 0xB0, CHR 0xC5, CHR 0xB8, CHR 0xE2, CHR 0x80, CHR 0x9C, CHR 0xC2, CHR 0xB0]"

definition deals_emoji :: string where
  "deals_emoji = [CHR 0xC3, CHR 0xB0, CHR 0xC5, CHR 0xB8, CHR 0xE2, CHR 0x80, CHR 0x99, CHR 0xC2, CHR 0xBC]"

definition nse_url :: string where
  "nse_url = ''https://www.nseindia.com/get-quotes/equity?symbol=''"

definition indent :: string where
  "indent = CHR 0x0A # replicate 16 (CHR '' '')"

definition deals_section :: "string \<Rightarrow> run" where
  "deals_section ticker =
     (let plain_symbol = takeWhile (\<lambda>c. c \<noteq> CHR ''.'') ticker in
      emit
       [St_subheader (deals_emoji @ '' Top Investor Activity (Bulk & Block Deals)''),
        St_info (PStr ''Please check the official NSE website for the most accurate data.''),
        St_markdown
         [Lit (indent @ ''* [**Check for Bulk Deals on NSE**]('' @ nse_url), Sub plain_symbol,
          Lit (''#security-information-bulk-deals)'' @ indent @
               ''* [**Check for Block Deals on NSE**]('' @ nse_url), Sub plain_symbol,
          Lit (''#security-information-block-deals)'' @ CHR 0x0A # replicate 12 (CHR '' ''))]])"

definition valid_ticker_page ::
  "analyzer \<Rightarrow> string \<Rightarrow> pyval pydict \<Rightarrow> dataframe \<Rightarrow> newsitem list \<Rightarrow> run" where
  "valid_ticker_page polarity_scores ticker info hist news =
     seq (emit [St_header [Str (get info ''longName'' (PStr ''N/A'')), Lit '' ('',
                           Str (get info ''symbol'' (PStr ''N/A'')), Lit '')'']])
    (seq (metrics_section info hist)
    (seq (emit [St_divider,
                St_subheader (core_emoji @ '' Core Competence''),
                St_info (get info ''longBusinessSummary'' (PStr ''No business summary available.'')),
                St_subheader (news_emoji @ '' Recent News & Sentiment'')])
    (seq (news_section polarity_scores news)
    (seq (emit [St_divider])
         (deals_section ticker)))))"

section \<open>Fetching and the main block\<close>

text \<open>
  \<^verbatim>\<open>yfinance\<close> is outside the program: \<^verbatim>\<open>yf.Ticker\<close> is a parameter, a function
  from a symbol to an object with the dictionary \<^verbatim>\<open>info\<close>, the method
  \<^verbatim>\<open>history(period)\<close> and the list \<^verbatim>\<open>news\<close>. The fetch is taken to return; the
  one-hour cache of its result is not modelled.
\<close>

record ticker_obj =
  ticker_info :: "pyval pydict"
  ticker_history :: "string \<Rightarrow> dataframe"
  ticker_news :: "newsitem list"

definition get_stock_data ::
  "(string \<Rightarrow> ticker_obj) \<Rightarrow> string \<Rightarrow> pyval pydict \<times> dataframe \<times> newsitem list" where
  "get_stock_data yf_Ticker ticker_symbol =
     (let stock = yf_Ticker ticker_symbol;
          info = ticker_info stock;
          hist = ticker_history stock ''3mo'';
          news = ticker_news stock
      in (info, hist, news))"

definition invalid_ticker_message :: "string \<Rightarrow> frag list" where
  "invalid_ticker_message ticker =
     [Lit (''Invalid Ticker: '' @ [CHR 0x27]), Sub ticker,
      Lit (CHR 0x27 #
        ''. Please check the symbol and exchange (e.g., use .NS for NSE).'')]"

text \<open>Lines 46 to 108, for the ticker read from the input box (already in upper case).
  The result is the list of elements written to the page.\<close>

definition main_block :: "(string \<Rightarrow> ticker_obj) \<Rightarrow> analyzer \<Rightarrow> string \<Rightarrow> element list" where
  "main_block yf_Ticker polarity_scores ticker =
     (if ticker = [] then []
      else
        (case get_stock_data yf_Ticker ticker of
           (info, hist, news) \<Rightarrow>
             if info = [] \<or> get info ''longName'' PNone = PNone
             then [St_error (invalid_ticker_message ticker)]
             else
               (case valid_ticker_page polarity_scores ticker info hist news of
                  (out, None) \<Rightarrow> out
                | (out, Some e) \<Rightarrow>
                    out @
                    [St_error [Lit ''An error occurred: '', Exc e],
                     St_warning
                       ''This could be due to an invalid ticker or a network issue. Please try again.''])))"

text \<open>The metrics and the error banners among the elements of a page.\<close>

fun is_metric :: "element \<Rightarrow> bool" where
  "is_metric (St_metric label v delta) = True"
| "is_metric el = False"

fun is_error :: "element \<Rightarrow> bool" where
  "is_error (St_error msg) = True"
| "is_error el = False"

section \<open>The order of the numbers and the maximum of a column\<close>








lemma foldl_fl_max_Fin: "foldl fl_max (Fin h) (map Fin hs) = Fin (fold max hs h)"
  by (induction hs arbitrary: h) (simp_all add: fl_max_def max_def)

lemma series_max_Fin:
  assumes "hs \<noteq> []"
  shows "series_max (map Fin hs) = Fin (Max (set hs))"
proof -
  obtain h hs' where eq: "hs = h # hs'" using assms by (cases hs) auto
  have "filter (\<lambda>x. x \<noteq> NaN) (map Fin hs) = map Fin hs"
    by (induction hs) simp_all
  then have "series_max (map Fin hs) = foldl fl_max (Fin h) (map Fin hs')"
    by (simp add: series_max_def eq)
  also have "\<dots> = Fin (fold max hs' h)" by (rule foldl_fl_max_Fin)
  also have "fold max hs' h = Max (set hs)" using Max.set_eq_fold [of h hs'] by (simp add: eq)
  finally show ?thesis .
qed

text \<open>The percent change by the kinds of its two operands.\<close>

lemma fl_sub_NaN_right: "fl_sub x NaN = NaN"
  by (cases x) simp_all

lemma percent_change_cases:
  "percent_change info =
     (case (current_price info, previous_close info) of
        (PNum x, PNum y) \<Rightarrow>
          if y = Fin 0 then Inr (Fin 0) else Inr (fl_mul (fl_div (fl_sub x y) y) (Fin 100))
      | _ \<Rightarrow> Inl TypeError)"
  by (cases "current_price info"; cases "previous_close info")
     (simp_all add: percent_change_def price_change_def and_then_def)

section \<open>The elements of a page\<close>

lemma seq_emit: "seq (emit els) r = (els @ fst r, snd r)"
  by (simp add: seq_def emit_def)

lemma fst_seq_prefix: "\<exists>rest. fst (seq a b) = fst a @ rest"
  by (cases a) (auto simp: seq_def split: option.splits)

lemma metrics_section_elements:
  "compute_metrics info hist = Inr m \<Longrightarrow>
     \<exists>rest. fst (metrics_section info hist) = price_metric_elements m @ rest"
  by (simp add: metrics_section_def seq_emit)

lemma valid_ticker_page_elements:
  "\<exists>rest. fst (valid_ticker_page polarity_scores ticker info hist news) =
     St_header [Str (get info ''longName'' (PStr ''N/A'')), Lit '' ('',
                Str (get info ''symbol'' (PStr ''N/A'')), Lit '')'']
       # fst (metrics_section info hist) @ rest"
proof -
  obtain rest where
    "fst (seq (metrics_section info hist)
      (seq (emit [St_divider,
                St_subheader (core_emoji @ '' Core Competence''),
                St_info (get info ''longBusinessSummary'' (PStr ''No business summary available.'')),
                St_subheader (news_emoji @ '' Recent News & Sentiment'')])
    (seq (news_section polarity_scores news)
    (seq (emit [St_divider])
         (deals_section ticker))))) = fst (metrics_section info hist) @ rest"
    using fst_seq_prefix by blast
  then show ?thesis
    by (simp add: valid_ticker_page_def seq_emit)
qed

lemma main_block_valid:
  assumes "ticker \<noteq> []" and "ticker_info (yf_Ticker ticker) \<noteq> []"
    and "get (ticker_info (yf_Ticker ticker)) ''longName'' PNone \<noteq> PNone"
  shows "\<exists>rest. main_block yf_Ticker polarity_scores ticker =
     fst (valid_ticker_page polarity_scores ticker (ticker_info (yf_Ticker ticker))
            (ticker_history (yf_Ticker ticker) ''3mo'') (ticker_news (yf_Ticker ticker))) @ rest"
  using assms
  by (auto simp: main_block_def get_stock_data_def Let_def split: prod.splits option.splits)




lemma news_loop_all:
  "map (\<lambda>item. (map_of item ''title'', map_of item ''publisher'')) items
      = map (\<lambda>(t, p). (Some t, Some p)) tps \<Longrightarrow>
   news_loop polarity_scores items
     = (concat (map (\<lambda>(t, p). item_lines t p (get_sentiment polarity_scores t)) tps), None)"
proof (induction items arbitrary: tps)
  case Nil
  then show ?case by (simp add: emit_def)
next
  case (Cons item items)
  then obtain t p tps' where tps: "tps = (t, p) # tps'" by (cases tps) auto
  with Cons.prems have i: "map_of item ''title'' = Some t" "map_of item ''publisher'' = Some p"
    and r: "map (\<lambda>item. (map_of item ''title'', map_of item ''publisher'')) items
      = map (\<lambda>(t, p). (Some t, Some p)) tps'"
    by auto
  show ?case
    by (simp add: tps i getitem_def seq_emit Cons.IH [OF r])
qed

section \<open>The sentiment thresholds\<close>

text \<open>
  Claim C4. For every headline and every (finite) compound score \<open>r\<close> of the engine, the
  label is Positive exactly when \<open>r \<ge> 0.05\<close>, Negative exactly when \<open>r \<le> -0.05\<close> and
  Neutral exactly in between; 0.05 is Positive, -0.05 is Negative, 0.049999 and 0 are
  Neutral.
\<close>

theorem get_sentiment_thresholds:
  "(fst (get_sentiment (\<lambda>t. \<lparr>neg = n, neu = u, pos = p, compound = Fin r\<rparr>) headline) = ''Positive'')
     = (5 / 100 \<le> r) \<and>
   (fst (get_sentiment (\<lambda>t. \<lparr>neg = n, neu = u, pos = p, compound = Fin r\<rparr>) headline) = ''Negative'')
     = (r \<le> - (5 / 100)) \<and>
   (fst (get_sentiment (\<lambda>t. \<lparr>neg = n, neu = u, pos = p, compound = Fin r\<rparr>) headline) = ''Neutral'')
     = (- (5 / 100) < r \<and> r < 5 / 100) \<and>
   fst (get_sentiment (\<lambda>t. \<lparr>neg = n, neu = u, pos = p, compound = Fin (5 / 100)\<rparr>) headline)
     = ''Positive'' \<and>
   fst (get_sentiment (\<lambda>t. \<lparr>neg = n, neu = u, pos = p, compound = Fin (49999 / 1000000)\<rparr>) headline)
     = ''Neutral'' \<and>
   fst (get_sentiment (\<lambda>t. \<lparr>neg = n, neu = u, pos = p, compound = Fin (- (5 / 100))\<rparr>) headline)
     = ''Negative'' \<and>
   fst (get_sentiment (\<lambda>t. \<lparr>neg = n, neu = u, pos = p, compound = Fin 0\<rparr>) headline)
     = ''Neutral''"
  by (auto simp add: get_sentiment_def fl_ge_def Let_def)

text \<open>
  Claim C9. The score that \<^verbatim>\<open>get_sentiment\<close> returns is the engine's compound score
  for the text, unchanged, and the label depends on that score alone: two calls whose
  compound scores are equal return the same label, whatever the texts and the other
  scores are.
\<close>

theorem get_sentiment_score_and_label:
  "snd (snd (get_sentiment polarity_scores text)) = compound (polarity_scores text) \<and>
   (compound (polarity_scores text) = compound (polarity_scores' text') \<longrightarrow>
      fst (get_sentiment polarity_scores text) = fst (get_sentiment polarity_scores' text'))"
  by (simp add: get_sentiment_def Let_def)

theorem get_sentiment_score_and_label_witness:
  "compound ((\<lambda>t. \<lparr>neg = Fin 0, neu = Fin (1 / 2), pos = Fin (1 / 2), compound = Fin (3 / 5)\<rparr>)
      ''Company beats earnings expectations'')
     = compound ((\<lambda>t. \<lparr>neg = Fin 0, neu = Fin (1 / 5), pos = Fin (4 / 5), compound = Fin (3 / 5)\<rparr>)
      ''Record profit'') \<and>
   snd (snd (get_sentiment
      (\<lambda>t. \<lparr>neg = Fin 0, neu = Fin (1 / 2), pos = Fin (1 / 2), compound = Fin (3 / 5)\<rparr>)
      ''Company beats earnings expectations'')) = Fin (3 / 5) \<and>
   fst (get_sentiment
      (\<lambda>t. \<lparr>neg = Fin 0, neu = Fin (1 / 2), pos = Fin (1 / 2), compound = Fin (3 / 5)\<rparr>)
      ''Company beats earnings expectations'')
     = fst (get_sentiment
      (\<lambda>t. \<lparr>neg = Fin 0, neu = Fin (1 / 5), pos = Fin (4 / 5), compound = Fin (3 / 5)\<rparr>)
      ''Record profit'')"
  using get_sentiment_score_and_label
    [of "\<lambda>t. \<lparr>neg = Fin 0, neu = Fin (1 / 2), pos = Fin (1 / 2), compound = Fin (3 / 5)\<rparr>"
        "''Company beats earnings expectations''"
        "\<lambda>t. \<lparr>neg = Fin 0, neu = Fin (1 / 5), pos = Fin (4 / 5), compound = Fin (3 / 5)\<rparr>"
        "''Record profit''"]
  by simp

section \<open>Price change and drawdown\<close>

text \<open>
  Claim C5. The percent change never raises a division by zero. For every numeric current
  price, it is 0 when the previous close is zero, and
  \<open>((currentPrice - previousClose) / previousClose) * 100\<close> when the previous close is
  not zero.
\<close>

theorem percent_change_zero_guard:
  "percent_change info \<noteq> Inl ZeroDivisionError \<and>
   (current_price info = PNum x \<and> previous_close info = PNum (Fin 0) \<longrightarrow>
      percent_change info = Inr (Fin 0)) \<and>
   (current_price info = PNum x \<and> previous_close info = PNum y \<and> y \<noteq> Fin 0 \<longrightarrow>
      percent_change info = Inr (fl_mul (fl_div (fl_sub x y) y) (Fin 100))) \<and>
   (current_price info = PNum (Fin c) \<and> previous_close info = PNum (Fin p) \<and> p \<noteq> 0 \<longrightarrow>
      percent_change info = Inr (Fin ((c - p) / p * 100)))"
  by (simp add: percent_change_cases split: pyval.splits)

theorem percent_change_zero_guard_witness:
  "current_price [(''longName'', PStr ''Acme''), (''currentPrice'', PNum (Fin 2500)),
                  (''previousClose'', PNum (Fin 0))] = PNum (Fin 2500) \<and>
   previous_close [(''longName'', PStr ''Acme''), (''currentPrice'', PNum (Fin 2500)),
                   (''previousClose'', PNum (Fin 0))] = PNum (Fin 0) \<and>
   percent_change [(''longName'', PStr ''Acme''), (''currentPrice'', PNum (Fin 2500)),
                   (''previousClose'', PNum (Fin 0))] = Inr (Fin 0) \<and>
   current_price [(''longName'', PStr ''Acme''), (''currentPrice'', PNum (Fin 2500)),
                  (''previousClose'', PNum (Fin 2400))] = PNum (Fin 2500) \<and>
   previous_close [(''longName'', PStr ''Acme''), (''currentPrice'', PNum (Fin 2500)),
                   (''previousClose'', PNum (Fin 2400))] = PNum (Fin 2400) \<and>
   Fin 2400 \<noteq> Fin 0 \<and> (2400::rat) \<noteq> 0 \<and>
   percent_change [(''longName'', PStr ''Acme''), (''currentPrice'', PNum (Fin 2500)),
                   (''previousClose'', PNum (Fin 2400))] = Inr (Fin (25 / 6))"
  using percent_change_zero_guard
      [of "[(''longName'', PStr ''Acme''), (''currentPrice'', PNum (Fin 2500)),
            (''previousClose'', PNum (Fin 0))]" "Fin 2500" "Fin 0" 2500 1]
    percent_change_zero_guard
      [of "[(''longName'', PStr ''Acme''), (''currentPrice'', PNum (Fin 2500)),
            (''previousClose'', PNum (Fin 2400))]" "Fin 2500" "Fin 2400" 2500 2400]
  by (simp add: current_price_def previous_close_def get_def)

text \<open>
  Claim C1. The drawdown of line 65 has no guard of the kind line 61 has for the percent
  change. With a period high of zero the division is numpy's: current price 50 gives an
  infinite drawdown and current price 0 (an absent one) gives not-a-number, where the
  claim says 0. The percent change at a previous close of zero is 0.
\<close>

theorem drop_from_high_zero_high:
  "drop_from_high [(''longName'', PStr ''Acme''), (''currentPrice'', PNum (Fin 50)),
                   (''previousClose'', PNum (Fin 40))] [(''High'', [Fin 0, Fin 0])] = Inr PInf \<and>
   drop_from_high [(''longName'', PStr ''Acme'')] [(''High'', [Fin 0, Fin 0])] = Inr NaN \<and>
   percent_change [(''longName'', PStr ''Acme''), (''currentPrice'', PNum (Fin 50)),
                   (''previousClose'', PNum (Fin 0))] = Inr (Fin 0)"
  by (simp add: high_60d_def drop_from_high_def percent_change_cases fl_max_def
      current_price_def previous_close_def get_def getitem_def and_then_def series_max_def np_truediv_def)

text \<open>
  Claim C2, as stated, fails: with an empty history the metrics are computed, nothing is
  raised, and the period high and the drawdown are not-a-number.
\<close>

theorem empty_history_counterexample:
  "compute_metrics [(''longName'', PStr ''Acme''), (''currentPrice'', PNum (Fin 2500)),
                    (''previousClose'', PNum (Fin 2400))] [(''High'', [])]
     = Inr \<lparr>currentPrice = PNum (Fin 2500), priceChange = Fin 100, percentChange = Fin (25 / 6),
            periodHigh = NaN, percentDrawdown = NaN\<rparr>"
  by (simp add: compute_metrics_def price_change_def percent_change_cases high_60d_def drop_from_high_def
      current_price_def previous_close_def get_def getitem_def and_then_def series_max_def np_truediv_def)

text \<open>
  Claim C2, amended. When the \<^verbatim>\<open>High\<close> column of the history has no row and the
  current price and the previous close are numbers (absent ones count as 0), no error is
  raised: the period high is pandas' maximum of an empty column, not-a-number, and the
  percent drawdown is not-a-number.
\<close>

theorem empty_history_gives_nan:
  assumes "getitem hist ''High'' = Inr []"
    and "current_price info = PNum x" and "previous_close info = PNum y"
  shows "high_60d hist = Inr NaN \<and> drop_from_high info hist = Inr NaN \<and>
         (\<exists>pc pct. compute_metrics info hist =
            Inr \<lparr>currentPrice = PNum x, priceChange = pc, percentChange = pct,
                 periodHigh = NaN, percentDrawdown = NaN\<rparr>)"
proof -
  have h: "high_60d hist = Inr NaN"
    using assms(1) by (simp add: high_60d_def and_then_def series_max_def)
  have d: "drop_from_high info hist = Inr NaN"
    using assms(2) by (simp add: drop_from_high_def h and_then_def np_truediv_def fl_sub_NaN_right)
  have p: "price_change info = Inr (fl_sub x y)"
    using assms(2,3) by (simp add: price_change_def)
  have "\<exists>pct. percent_change info = Inr pct"
    using assms(2,3) by (simp add: percent_change_cases)
  then obtain pct where q: "percent_change info = Inr pct" ..
  show ?thesis
    using h d p q assms(2) by (simp add: compute_metrics_def and_then_def)
qed

theorem empty_history_gives_nan_witness:
  "getitem [(''High'', [])] ''High'' = Inr ([]::fl list) \<and>
   current_price [(''longName'', PStr ''Acme''), (''currentPrice'', PNum (Fin 2500)),
                  (''previousClose'', PNum (Fin 2400))] = PNum (Fin 2500) \<and>
   previous_close [(''longName'', PStr ''Acme''), (''currentPrice'', PNum (Fin 2500)),
                  (''previousClose'', PNum (Fin 2400))] = PNum (Fin 2400) \<and>
   high_60d [(''High'', [])] = Inr NaN \<and>
   drop_from_high [(''longName'', PStr ''Acme''), (''currentPrice'', PNum (Fin 2500)),
                  (''previousClose'', PNum (Fin 2400))] [(''High'', [])] = Inr NaN"
proof -
  have a: "getitem [(''High'', [])] ''High'' = Inr ([]::fl list)"
    by (simp add: getitem_def)
  have b: "current_price [(''longName'', PStr ''Acme''), (''currentPrice'', PNum (Fin 2500)),
                  (''previousClose'', PNum (Fin 2400))] = PNum (Fin 2500)"
    by (simp add: current_price_def get_def)
  have c: "previous_close [(''longName'', PStr ''Acme''), (''currentPrice'', PNum (Fin 2500)),
                  (''previousClose'', PNum (Fin 2400))] = PNum (Fin 2400)"
    by (simp add: previous_close_def get_def)
  show ?thesis
    using a b c empty_history_gives_nan [OF a b c] by simp
qed

text \<open>
  What holds of the period high and the sign of the drawdown. For a history whose
  \<^verbatim>\<open>High\<close> column is a non-empty list of finite numbers, the period high is the
  maximum of the column; and when that maximum is positive and the current price is at
  most the maximum, the percent drawdown is
  \<open>((currentPrice - periodHigh) / periodHigh) * 100\<close> and is not positive.
\<close>

lemma period_high_is_maximum:
  assumes "getitem hist ''High'' = Inr (map Fin hs)" and "hs \<noteq> []"
    and "current_price info = PNum (Fin c)"
  shows "high_60d hist = Inr (Fin (Max (set hs))) \<and>
         (0 < Max (set hs) \<and> c \<le> Max (set hs) \<longrightarrow>
            drop_from_high info hist = Inr (Fin ((c - Max (set hs)) / Max (set hs) * 100)) \<and>
            (c - Max (set hs)) / Max (set hs) * 100 \<le> 0)"
proof -
  have h: "high_60d hist = Inr (Fin (Max (set hs)))"
    using assms(1,2) by (simp add: high_60d_def and_then_def series_max_Fin)
  have d: "drop_from_high info hist = Inr (Fin ((c - Max (set hs)) / Max (set hs) * 100))"
    if "0 < Max (set hs)"
    using that assms(3) by (simp add: drop_from_high_def h and_then_def np_truediv_def)
  have s: "(c - Max (set hs)) / Max (set hs) * 100 \<le> 0"
    if "0 < Max (set hs)" "c \<le> Max (set hs)"
    using that by (simp add: divide_le_0_iff mult_le_0_iff)
  show ?thesis using h d s by blast
qed

lemma period_high_is_maximum_example:
  "getitem [(''High'', [Fin 2600, Fin 2550, Fin 2500])] ''High'' = Inr (map Fin [2600, 2550, 2500]) \<and>
   [2600, 2550, 2500 :: rat] \<noteq> [] \<and>
   current_price [(''longName'', PStr ''Acme''), (''currentPrice'', PNum (Fin 2500)),
                  (''previousClose'', PNum (Fin 2400))] = PNum (Fin 2500) \<and>
   (0::rat) < Max (set [2600, 2550, 2500]) \<and> (2500::rat) \<le> Max (set [2600, 2550, 2500]) \<and>
   high_60d [(''High'', [Fin 2600, Fin 2550, Fin 2500])] = Inr (Fin 2600) \<and>
   drop_from_high [(''longName'', PStr ''Acme''), (''currentPrice'', PNum (Fin 2500)),
                   (''previousClose'', PNum (Fin 2400))]
                  [(''High'', [Fin 2600, Fin 2550, Fin 2500])] = Inr (Fin (- (50 / 13)))"
proof -
  have a: "getitem [(''High'', [Fin 2600, Fin 2550, Fin 2500])] ''High''
             = Inr (map Fin [2600, 2550, 2500])"
    by (simp add: getitem_def)
  have b: "[2600, 2550, 2500 :: rat] \<noteq> []" by simp
  have c: "current_price [(''longName'', PStr ''Acme''), (''currentPrice'', PNum (Fin 2500)),
                  (''previousClose'', PNum (Fin 2400))] = PNum (Fin 2500)"
    by (simp add: current_price_def get_def)
  have m: "Max (set [2600, 2550, 2500 :: rat]) = 2600" by simp
  show ?thesis
    using a b c period_high_is_maximum [OF a b c] by (simp add: m)
qed

text \<open>
  Claim C6. The period high is the maximum of the column, but the sign of the drawdown
  fails where the period high is zero, for want of the guard that line 61 has: with the
  highs 0 and 0 and no price in the record, the current price 0 is at most the period
  high 0, and the drawdown is not-a-number, which is not at most 0.
\<close>

theorem drawdown_sign_zero_high:
  "high_60d [(''High'', [Fin 0, Fin 0])] = Inr (Fin (Max (set [0, 0]))) \<and>
   high_60d [(''High'', [Fin 0, Fin 0])] = Inr (Fin 0) \<and>
   current_price [(''longName'', PStr ''Acme'')] = PNum (Fin 0) \<and>
   fl_le (Fin 0) (Fin 0) \<and>
   drop_from_high [(''longName'', PStr ''Acme'')] [(''High'', [Fin 0, Fin 0])] = Inr NaN \<and>
   \<not> fl_le NaN (Fin 0)"
  by (simp add: high_60d_def drop_from_high_def fl_max_def current_price_def get_def
      getitem_def and_then_def series_max_def np_truediv_def)

text \<open>
  Claim C7, as stated, fails: with no \<^verbatim>\<open>currentPrice\<close> and a
  \<^verbatim>\<open>regularMarketPrice\<close> of 100, the current price used is 100, not 0; the price
  change is 100 and the drawdown from a high of 200 is -50 percent.
\<close>

theorem absent_current_price_counterexample:
  "map_of [(''longName'', PStr ''Acme''), (''regularMarketPrice'', PNum (Fin 100))] ''currentPrice''
     = None \<and>
   current_price [(''longName'', PStr ''Acme''), (''regularMarketPrice'', PNum (Fin 100))]
     = PNum (Fin 100) \<and>
   price_change [(''longName'', PStr ''Acme''), (''regularMarketPrice'', PNum (Fin 100))]
     = Inr (Fin 100) \<and>
   drop_from_high [(''longName'', PStr ''Acme''), (''regularMarketPrice'', PNum (Fin 100))]
                  [(''High'', [Fin 200])] = Inr (Fin (- 50))"
  by (simp add: high_60d_def drop_from_high_def price_change_def
      current_price_def previous_close_def get_def getitem_def and_then_def series_max_def np_truediv_def)

text \<open>
  Claim C7, amended. An absent \<^verbatim>\<open>previousClose\<close> is treated as 0. An absent
  \<^verbatim>\<open>currentPrice\<close> is replaced by \<^verbatim>\<open>regularMarketPrice\<close> when that is present,
  and is treated as 0 only when both are absent. A present field is used as it is. The
  value so chosen is the one that enters the price change, the percent change and the
  drawdown: with \<^verbatim>\<open>currentPrice\<close> absent these three are computed from
  \<^verbatim>\<open>regularMarketPrice\<close>, or from 0 when that is absent too, and with
  \<^verbatim>\<open>previousClose\<close> absent the price change subtracts 0 and the percent change
  is 0.
\<close>

theorem absent_price_fields:
  "(map_of info ''previousClose'' = None \<longrightarrow> previous_close info = PNum (Fin 0)) \<and>
   (map_of info ''previousClose'' = Some v \<longrightarrow> previous_close info = v) \<and>
   (map_of info ''currentPrice'' = Some v \<longrightarrow> current_price info = v) \<and>
   (map_of info ''currentPrice'' = None \<and> map_of info ''regularMarketPrice'' = Some v \<longrightarrow>
      current_price info = v) \<and>
   (map_of info ''currentPrice'' = None \<and> map_of info ''regularMarketPrice'' = None \<longrightarrow>
      current_price info = PNum (Fin 0)) \<and>
   (map_of info ''currentPrice'' = None \<and> map_of info ''regularMarketPrice'' = None \<and>
    map_of info ''previousClose'' = None \<longrightarrow>
      price_change info = Inr (Fin 0) \<and> percent_change info = Inr (Fin 0)) \<and>
   (map_of info ''currentPrice'' = None \<and> map_of info ''regularMarketPrice'' = None \<and>
    high_60d hist = Inr (Fin h) \<and> h \<noteq> 0 \<longrightarrow>
      drop_from_high info hist = Inr (Fin (- 100))) \<and>
   (map_of info ''currentPrice'' = None \<and> map_of info ''regularMarketPrice'' = Some (PNum x) \<and>
    map_of info ''previousClose'' = Some (PNum y) \<longrightarrow>
      price_change info = Inr (fl_sub x y) \<and>
      percent_change info =
        Inr (if y = Fin 0 then Fin 0 else fl_mul (fl_div (fl_sub x y) y) (Fin 100))) \<and>
   (map_of info ''currentPrice'' = None \<and> map_of info ''regularMarketPrice'' = Some (PNum x) \<and>
    map_of info ''previousClose'' = None \<longrightarrow>
      price_change info = Inr (fl_sub x (Fin 0)) \<and> percent_change info = Inr (Fin 0)) \<and>
   (map_of info ''currentPrice'' = None \<and> map_of info ''regularMarketPrice'' = Some (PNum x) \<and>
    high_60d hist = Inr hi \<longrightarrow>
      drop_from_high info hist = Inr (fl_mul (fl_div (fl_sub x hi) hi) (Fin 100))) \<and>
   (map_of info ''currentPrice'' = None \<and> map_of info ''regularMarketPrice'' = None \<and>
    map_of info ''previousClose'' = Some (PNum y) \<longrightarrow>
      price_change info = Inr (fl_sub (Fin 0) y) \<and>
      percent_change info =
        Inr (if y = Fin 0 then Fin 0 else fl_mul (fl_div (fl_sub (Fin 0) y) y) (Fin 100))) \<and>
   (map_of info ''currentPrice'' = None \<and> map_of info ''regularMarketPrice'' = None \<and>
    high_60d hist = Inr hi \<longrightarrow>
      drop_from_high info hist = Inr (fl_mul (fl_div (fl_sub (Fin 0) hi) hi) (Fin 100))) \<and>
   (map_of info ''currentPrice'' = Some (PNum x) \<and> map_of info ''previousClose'' = None \<longrightarrow>
      price_change info = Inr (fl_sub x (Fin 0)) \<and> percent_change info = Inr (Fin 0)) \<and>
   (current_price info = PNum x \<and> previous_close info = PNum y \<longrightarrow>
      price_change info = Inr (fl_sub x y) \<and>
      percent_change info =
        Inr (if y = Fin 0 then Fin 0 else fl_mul (fl_div (fl_sub x y) y) (Fin 100))) \<and>
   (current_price info = PNum x \<and> high_60d hist = Inr hi \<longrightarrow>
      drop_from_high info hist = Inr (fl_mul (fl_div (fl_sub x hi) hi) (Fin 100)))"
  by (simp add: previous_close_def current_price_def get_def price_change_def
      percent_change_cases drop_from_high_def and_then_def np_truediv_def)

theorem absent_price_fields_witness:
  "map_of [(''longName'', PStr ''Acme'')] ''previousClose'' = None \<and>
   map_of [(''longName'', PStr ''Acme'')] ''currentPrice'' = None \<and>
   map_of [(''longName'', PStr ''Acme'')] ''regularMarketPrice'' = None \<and>
   high_60d [(''High'', [Fin 200])] = Inr (Fin 200) \<and> (200::rat) \<noteq> 0 \<and>
   previous_close [(''longName'', PStr ''Acme'')] = PNum (Fin 0) \<and>
   current_price [(''longName'', PStr ''Acme'')] = PNum (Fin 0) \<and>
   price_change [(''longName'', PStr ''Acme'')] = Inr (Fin 0) \<and>
   percent_change [(''longName'', PStr ''Acme'')] = Inr (Fin 0) \<and>
   drop_from_high [(''longName'', PStr ''Acme'')] [(''High'', [Fin 200])] = Inr (Fin (- 100)) \<and>
   map_of [(''regularMarketPrice'', PNum (Fin 100)), (''previousClose'', PNum (Fin 90))]
     ''currentPrice'' = None \<and>
   map_of [(''regularMarketPrice'', PNum (Fin 100)), (''previousClose'', PNum (Fin 90))]
     ''regularMarketPrice'' = Some (PNum (Fin 100)) \<and>
   map_of [(''regularMarketPrice'', PNum (Fin 100)), (''previousClose'', PNum (Fin 90))]
     ''previousClose'' = Some (PNum (Fin 90)) \<and>
   current_price [(''regularMarketPrice'', PNum (Fin 100)), (''previousClose'', PNum (Fin 90))]
     = PNum (Fin 100) \<and>
   previous_close [(''regularMarketPrice'', PNum (Fin 100)), (''previousClose'', PNum (Fin 90))]
     = PNum (Fin 90) \<and>
   price_change [(''regularMarketPrice'', PNum (Fin 100)), (''previousClose'', PNum (Fin 90))]
     = Inr (Fin 10) \<and>
   percent_change [(''regularMarketPrice'', PNum (Fin 100)), (''previousClose'', PNum (Fin 90))]
     = Inr (Fin (100 / 9)) \<and>
   drop_from_high [(''regularMarketPrice'', PNum (Fin 100)), (''previousClose'', PNum (Fin 90))]
     [(''High'', [Fin 200])] = Inr (Fin (- 50)) \<and>
   map_of [(''regularMarketPrice'', PNum (Fin 100))] ''currentPrice'' = None \<and>
   map_of [(''regularMarketPrice'', PNum (Fin 100))] ''regularMarketPrice''
     = Some (PNum (Fin 100)) \<and>
   map_of [(''regularMarketPrice'', PNum (Fin 100))] ''previousClose'' = None \<and>
   price_change [(''regularMarketPrice'', PNum (Fin 100))] = Inr (Fin 100) \<and>
   percent_change [(''regularMarketPrice'', PNum (Fin 100))] = Inr (Fin 0) \<and>
   map_of [(''previousClose'', PNum (Fin 80))] ''currentPrice'' = None \<and>
   map_of [(''previousClose'', PNum (Fin 80))] ''regularMarketPrice'' = None \<and>
   map_of [(''previousClose'', PNum (Fin 80))] ''previousClose'' = Some (PNum (Fin 80)) \<and>
   price_change [(''previousClose'', PNum (Fin 80))] = Inr (Fin (- 80)) \<and>
   percent_change [(''previousClose'', PNum (Fin 80))] = Inr (Fin (- 100)) \<and>
   drop_from_high [(''previousClose'', PNum (Fin 80))] [(''High'', [Fin 200])]
     = Inr (Fin (- 100)) \<and>
   map_of [(''currentPrice'', PNum (Fin 90))] ''currentPrice'' = Some (PNum (Fin 90)) \<and>
   map_of [(''currentPrice'', PNum (Fin 90))] ''previousClose'' = None \<and>
   current_price [(''currentPrice'', PNum (Fin 90))] = PNum (Fin 90) \<and>
   price_change [(''currentPrice'', PNum (Fin 90))] = Inr (Fin 90) \<and>
   percent_change [(''currentPrice'', PNum (Fin 90))] = Inr (Fin 0) \<and>
   map_of [(''currentPrice'', PNum (Fin 90)), (''previousClose'', PNum (Fin 90))]
     ''currentPrice'' = Some (PNum (Fin 90)) \<and>
   map_of [(''currentPrice'', PNum (Fin 90)), (''previousClose'', PNum (Fin 90))]
     ''previousClose'' = Some (PNum (Fin 90)) \<and>
   current_price [(''currentPrice'', PNum (Fin 90)), (''previousClose'', PNum (Fin 90))]
     = PNum (Fin 90) \<and>
   previous_close [(''currentPrice'', PNum (Fin 90)), (''previousClose'', PNum (Fin 90))]
     = PNum (Fin 90)"
proof -
  have hh: "high_60d [(''High'', [Fin 200])] = Inr (Fin 200)"
    by (simp add: high_60d_def getitem_def and_then_def series_max_def)
  show ?thesis
    using absent_price_fields [of "[(''longName'', PStr ''Acme'')]" "PNone"
        "[(''High'', [Fin 200])]" 200 "Fin 0" "Fin 0" "Fin 200"]
      absent_price_fields
        [of "[(''regularMarketPrice'', PNum (Fin 100)), (''previousClose'', PNum (Fin 90))]"
            "PNum (Fin 100)" "[(''High'', [Fin 200])]" 200 "Fin 100" "Fin 90" "Fin 200"]
      absent_price_fields
        [of "[(''regularMarketPrice'', PNum (Fin 100))]"
            "PNum (Fin 100)" "[(''High'', [Fin 200])]" 200 "Fin 100" "Fin 0" "Fin 200"]
      absent_price_fields
        [of "[(''previousClose'', PNum (Fin 80))]"
            "PNum (Fin 80)" "[(''High'', [Fin 200])]" 200 "Fin 0" "Fin 80" "Fin 200"]
      absent_price_fields
        [of "[(''currentPrice'', PNum (Fin 90))]"
            "PNum (Fin 90)" "[(''High'', [Fin 200])]" 200 "Fin 90" "Fin 0" "Fin 200"]
      absent_price_fields
        [of "[(''currentPrice'', PNum (Fin 90)), (''previousClose'', PNum (Fin 90))]"
            "PNum (Fin 90)" "[(''High'', [Fin 200])]" 200 "Fin 90" "Fin 90" "Fin 200"]
    by (simp add: hh current_price_def previous_close_def get_def)
qed

section \<open>The validity check, the news and the history window\<close>

text \<open>
  Claim C3, as stated, fails: a record with a display name and no ticker symbol is a valid
  one for the program. The page is built, it has no error banner, and the three metrics
  are computed and shown.
\<close>

theorem missing_symbol_counterexample:
  "map_of [(''longName'', PStr ''Acme''), (''currentPrice'', PNum (Fin 2500)),
           (''previousClose'', PNum (Fin 2400))] ''symbol'' = None \<and>
   filter is_error
     (main_block
        (\<lambda>s. \<lparr>ticker_info = [(''longName'', PStr ''Acme''), (''currentPrice'', PNum (Fin 2500)),
                               (''previousClose'', PNum (Fin 2400))],
               ticker_history = (\<lambda>period. [(''High'', [Fin 2600, Fin 2550, Fin 2500])]),
               ticker_news = []\<rparr>)
        (\<lambda>t. \<lparr>neg = Fin 0, neu = Fin 1, pos = Fin 0, compound = Fin 0\<rparr>)
        ''ACME.NS'') = [] \<and>
   filter is_metric
     (main_block
        (\<lambda>s. \<lparr>ticker_info = [(''longName'', PStr ''Acme''), (''currentPrice'', PNum (Fin 2500)),
                               (''previousClose'', PNum (Fin 2400))],
               ticker_history = (\<lambda>period. [(''High'', [Fin 2600, Fin 2550, Fin 2500])]),
               ticker_news = []\<rparr>)
        (\<lambda>t. \<lparr>neg = Fin 0, neu = Fin 1, pos = Fin 0, compound = Fin 0\<rparr>)
        ''ACME.NS'')
     = [St_metric ''Current Price'' [Lit rupee, Fmt '',.2f'' (PNum (Fin 2500))]
          [Fmt '',.2f'' (PNum (Fin 100)), Lit '' ('', Fmt ''.2f'' (PNum (Fin (25 / 6))), Lit ''%)''],
        St_metric ''60-Day High'' [Lit rupee, Fmt '',.2f'' (PNum (Fin 2600))]
          [Fmt ''.2f'' (PNum (Fin (- (50 / 13)))), Lit ''% Drop''],
        St_metric ''Market Cap'' [Lit rupee, Fmt '',.0f'' (PNum (Fin 0)), Lit '' Cr''] []]"
  by (simp add: main_block_def get_stock_data_def valid_ticker_page_def metrics_section_def
      price_metric_elements_def news_section_def deals_section_def seq_def emit_def raise_def
      compute_metrics_def price_change_def percent_change_cases high_60d_def drop_from_high_def
      current_price_def previous_close_def get_def getitem_def and_then_def series_max_def
      fl_max_def np_truediv_def Let_def)

text \<open>
  Claim C3, amended. For every fetched record and non-empty ticker: when the
  \<^verbatim>\<open>info\<close> dictionary is empty or has no display name (\<^verbatim>\<open>longName\<close> absent or
  \<^verbatim>\<open>None\<close>), the page is the single error banner "Invalid Ticker", so no metrics are
  computed and nothing is raised. The ticker symbol is not checked: with a display name
  and no symbol the page starts with the header, which shows \<^verbatim>\<open>N/A\<close> for the symbol,
  and whenever the metrics computation succeeds its metrics are on the page.
\<close>

theorem invalid_ticker_banner:
  assumes "ticker \<noteq> []" and "ticker_info (yf_Ticker ticker) = info"
  shows "(info = [] \<or> get info ''longName'' PNone = PNone \<longrightarrow>
            main_block yf_Ticker polarity_scores ticker = [St_error (invalid_ticker_message ticker)]) \<and>
         (info \<noteq> [] \<and> get info ''longName'' PNone \<noteq> PNone \<and> map_of info ''symbol'' = None \<longrightarrow>
            (\<exists>rest. main_block yf_Ticker polarity_scores ticker =
               St_header [Str (get info ''longName'' (PStr ''N/A'')), Lit '' ('',
                          Str (PStr ''N/A''), Lit '')''] # rest \<and>
               (\<forall>m. compute_metrics info (ticker_history (yf_Ticker ticker) ''3mo'') = Inr m \<longrightarrow>
                    set (price_metric_elements m) \<subseteq> set rest)))"
proof (intro conjI impI)
  assume "info = [] \<or> get info ''longName'' PNone = PNone"
  then show "main_block yf_Ticker polarity_scores ticker = [St_error (invalid_ticker_message ticker)]"
    using assms by (auto simp: main_block_def get_stock_data_def Let_def)
next
  assume v: "info \<noteq> [] \<and> get info ''longName'' PNone \<noteq> PNone \<and> map_of info ''symbol'' = None"
  let ?hist = "ticker_history (yf_Ticker ticker) ''3mo''"
  let ?hdr = "St_header [Str (get info ''longName'' (PStr ''N/A'')), Lit '' ('',
                          Str (PStr ''N/A''), Lit '')'']"
  have sym: "get info ''symbol'' (PStr ''N/A'') = PStr ''N/A''"
    using v by (simp add: get_def)
  obtain r1 where r1: "main_block yf_Ticker polarity_scores ticker =
     fst (valid_ticker_page polarity_scores ticker info ?hist (ticker_news (yf_Ticker ticker))) @ r1"
    using main_block_valid [of ticker yf_Ticker polarity_scores] assms v by auto
  obtain r2 where r2: "fst (valid_ticker_page polarity_scores ticker info ?hist (ticker_news (yf_Ticker ticker)))
      = ?hdr # fst (metrics_section info ?hist) @ r2"
    using valid_ticker_page_elements [of polarity_scores ticker info ?hist] sym by auto
  have eq: "main_block yf_Ticker polarity_scores ticker = ?hdr # (fst (metrics_section info ?hist) @ r2 @ r1)"
    by (simp add: r1 r2)
  have "set (price_metric_elements m) \<subseteq> set (fst (metrics_section info ?hist) @ r2 @ r1)"
    if "compute_metrics info ?hist = Inr m" for m
    using metrics_section_elements [OF that] by auto
  with eq show "\<exists>rest. main_block yf_Ticker polarity_scores ticker = ?hdr # rest \<and>
               (\<forall>m. compute_metrics info ?hist = Inr m \<longrightarrow>
                    set (price_metric_elements m) \<subseteq> set rest)"
    by blast
qed

theorem invalid_ticker_banner_witness:
  "''ACME.NS'' \<noteq> [] \<and>
   ticker_info ((\<lambda>s. \<lparr>ticker_info = [(''symbol'', PStr ''ACME.NS''), (''longName'', PNone)],
                      ticker_history = (\<lambda>period. [(''High'', [])]), ticker_news = []\<rparr>) ''ACME.NS'')
     = [(''symbol'', PStr ''ACME.NS''), (''longName'', PNone)] \<and>
   get [(''symbol'', PStr ''ACME.NS''), (''longName'', PNone)] ''longName'' PNone = PNone \<and>
   main_block
     (\<lambda>s. \<lparr>ticker_info = [(''symbol'', PStr ''ACME.NS''), (''longName'', PNone)],
            ticker_history = (\<lambda>period. [(''High'', [])]), ticker_news = []\<rparr>)
     (\<lambda>t. \<lparr>neg = Fin 0, neu = Fin 1, pos = Fin 0, compound = Fin 0\<rparr>) ''ACME.NS''
     = [St_error (invalid_ticker_message ''ACME.NS'')] \<and>
   ticker_info ((\<lambda>s. \<lparr>ticker_info = [(''longName'', PStr ''Acme'')],
                      ticker_history = (\<lambda>period. [(''High'', [Fin 200])]), ticker_news = []\<rparr>) ''ACME.NS'')
     = [(''longName'', PStr ''Acme'')] \<and>
   [(''longName'', PStr ''Acme'')] \<noteq> [] \<and>
   get [(''longName'', PStr ''Acme'')] ''longName'' PNone \<noteq> PNone \<and>
   map_of [(''longName'', PStr ''Acme'')] ''symbol'' = None \<and>
   compute_metrics [(''longName'', PStr ''Acme'')] [(''High'', [Fin 200])]
     = Inr \<lparr>currentPrice = PNum (Fin 0), priceChange = Fin 0, percentChange = Fin 0,
            periodHigh = Fin 200, percentDrawdown = Fin (- 100)\<rparr> \<and>
   (\<exists>rest.
      main_block
        (\<lambda>s. \<lparr>ticker_info = [(''longName'', PStr ''Acme'')],
               ticker_history = (\<lambda>period. [(''High'', [Fin 200])]), ticker_news = []\<rparr>)
        (\<lambda>t. \<lparr>neg = Fin 0, neu = Fin 1, pos = Fin 0, compound = Fin 0\<rparr>) ''ACME.NS''
        = St_header [Str (PStr ''Acme''), Lit '' ('', Str (PStr ''N/A''), Lit '')''] # rest \<and>
      set (price_metric_elements
             \<lparr>currentPrice = PNum (Fin 0), priceChange = Fin 0, percentChange = Fin 0,
              periodHigh = Fin 200, percentDrawdown = Fin (- 100)\<rparr>) \<subseteq> set rest)"
proof -
  have c: "compute_metrics [(''longName'', PStr ''Acme'')] [(''High'', [Fin 200])]
     = Inr \<lparr>currentPrice = PNum (Fin 0), priceChange = Fin 0, percentChange = Fin 0,
            periodHigh = Fin 200, percentDrawdown = Fin (- 100)\<rparr>"
    by (simp add: compute_metrics_def price_change_def percent_change_cases high_60d_def
        drop_from_high_def current_price_def previous_close_def get_def getitem_def and_then_def
        series_max_def np_truediv_def)
  have g: "get [(''longName'', PStr ''Acme'')] ''longName'' PNone \<noteq> PNone"
    "get [(''symbol'', PStr ''ACME.NS''), (''longName'', PNone)] ''longName'' PNone = PNone"
    "get [(''longName'', PStr ''Acme'')] ''longName'' (PStr ''N/A'') = PStr ''Acme''"
    by (simp_all add: get_def)
  show ?thesis
    using invalid_ticker_banner
        [of "''ACME.NS''"
            "\<lambda>s. \<lparr>ticker_info = [(''symbol'', PStr ''ACME.NS''), (''longName'', PNone)],
                   ticker_history = (\<lambda>period. [(''High'', [])]), ticker_news = []\<rparr>"
            "[(''symbol'', PStr ''ACME.NS''), (''longName'', PNone)]"
            "\<lambda>t. \<lparr>neg = Fin 0, neu = Fin 1, pos = Fin 0, compound = Fin 0\<rparr>"]
      invalid_ticker_banner
        [of "''ACME.NS''"
            "\<lambda>s. \<lparr>ticker_info = [(''longName'', PStr ''Acme'')],
                   ticker_history = (\<lambda>period. [(''High'', [Fin 200])]), ticker_news = []\<rparr>"
            "[(''longName'', PStr ''Acme'')]"
            "\<lambda>t. \<lparr>neg = Fin 0, neu = Fin 1, pos = Fin 0, compound = Fin 0\<rparr>"]
    by (simp add: c g)
qed

text \<open>
  Claim C8, as stated, fails: a news item with a title and no publisher ends the loop with
  a \<^verbatim>\<open>KeyError\<close> before its headline is classified, and the page shows the error
  banner of the handler.
\<close>

theorem missing_publisher_counterexample:
  "news_section (\<lambda>t. \<lparr>neg = Fin 0, neu = Fin 1, pos = Fin 0, compound = Fin 0\<rparr>)
     [[(''title'', ''Profit up'')]] = ([], Some (KeyError ''publisher'')) \<and>
   filter is_error
     (main_block
        (\<lambda>s. \<lparr>ticker_info = [(''longName'', PStr ''Acme''), (''currentPrice'', PNum (Fin 2500)),
                               (''previousClose'', PNum (Fin 2400))],
               ticker_history = (\<lambda>period. [(''High'', [Fin 2600, Fin 2550, Fin 2500])]),
               ticker_news = [[(''title'', ''Profit up'')]]\<rparr>)
        (\<lambda>t. \<lparr>neg = Fin 0, neu = Fin 1, pos = Fin 0, compound = Fin 0\<rparr>)
        ''ACME.NS'') = [St_error [Lit ''An error occurred: '', Exc (KeyError ''publisher'')]]"
  by (simp add: main_block_def get_stock_data_def valid_ticker_page_def metrics_section_def
      price_metric_elements_def news_section_def deals_section_def seq_def emit_def raise_def
      compute_metrics_def price_change_def percent_change_cases high_60d_def drop_from_high_def
      current_price_def previous_close_def get_def getitem_def and_then_def series_max_def
      fl_max_def np_truediv_def Let_def)

text \<open>
  Claim C8, amended. For every non-empty news list whose first five items (all of them,
  when there are fewer) each carry a title and a publisher, the news section classifies
  exactly those headlines, in order: its output is, item by item, the three lines made
  from that item's title and publisher and from \<^verbatim>\<open>get_sentiment\<close> of that title
  alone, and nothing is raised.
\<close>

theorem news_section_first_five:
  assumes "map (\<lambda>item. (map_of item ''title'', map_of item ''publisher'')) (take 5 news)
             = map (\<lambda>(t, p). (Some t, Some p)) tps"
    and "news \<noteq> []"
  shows "news_section polarity_scores news
           = (concat (map (\<lambda>(t, p). item_lines t p (get_sentiment polarity_scores t)) tps), None) \<and>
         length tps = min 5 (length news)"
proof -
  have "length (map (\<lambda>item. (map_of item ''title'', map_of item ''publisher'')) (take 5 news))
          = length tps"
    by (simp only: assms(1) length_map)
  then have l: "length tps = min 5 (length news)" by (simp add: min.commute)
  show ?thesis
    using assms(2) l by (simp add: news_section_def news_loop_all [OF assms(1)])
qed

theorem news_section_first_five_witness:
  "map (\<lambda>item. (map_of item ''title'', map_of item ''publisher''))
     (take 5 [[(''title'', ''Profit up''), (''publisher'', ''P1'')],
              [(''title'', ''Shares fall''), (''publisher'', ''P2'')],
              [(''title'', ''New plant''), (''publisher'', ''P3'')],
              [(''title'', ''Dividend''), (''publisher'', ''P4'')],
              [(''title'', ''Merger''), (''publisher'', ''P5'')],
              [(''title'', ''Sixth'')]])
     = map (\<lambda>(t, p). (Some t, Some p))
         [(''Profit up'', ''P1''), (''Shares fall'', ''P2''), (''New plant'', ''P3''),
          (''Dividend'', ''P4''), (''Merger'', ''P5'')] \<and>
   [[(''title'', ''Profit up''), (''publisher'', ''P1'')],
    [(''title'', ''Shares fall''), (''publisher'', ''P2'')],
    [(''title'', ''New plant''), (''publisher'', ''P3'')],
    [(''title'', ''Dividend''), (''publisher'', ''P4'')],
    [(''title'', ''Merger''), (''publisher'', ''P5'')],
    [(''title'', ''Sixth'')]] \<noteq> [] \<and>
   news_section (\<lambda>t. \<lparr>neg = Fin 0, neu = Fin 1, pos = Fin 0,
                       compound = (if t = ''Profit up'' then Fin (3 / 5) else Fin 0)\<rparr>)
     [[(''title'', ''Profit up''), (''publisher'', ''P1'')],
      [(''title'', ''Shares fall''), (''publisher'', ''P2'')],
      [(''title'', ''New plant''), (''publisher'', ''P3'')],
      [(''title'', ''Dividend''), (''publisher'', ''P4'')],
      [(''title'', ''Merger''), (''publisher'', ''P5'')],
      [(''title'', ''Sixth'')]]
     = (item_lines ''Profit up'' ''P1'' (''Positive'', emoji_positive, Fin (3 / 5)) @
        item_lines ''Shares fall'' ''P2'' (''Neutral'', emoji_neutral, Fin 0) @
        item_lines ''New plant'' ''P3'' (''Neutral'', emoji_neutral, Fin 0) @
        item_lines ''Dividend'' ''P4'' (''Neutral'', emoji_neutral, Fin 0) @
        item_lines ''Merger'' ''P5'' (''Neutral'', emoji_neutral, Fin 0), None)"
proof -
  let ?news = "[[(''title'', ''Profit up''), (''publisher'', ''P1'')],
      [(''title'', ''Shares fall''), (''publisher'', ''P2'')],
      [(''title'', ''New plant''), (''publisher'', ''P3'')],
      [(''title'', ''Dividend''), (''publisher'', ''P4'')],
      [(''title'', ''Merger''), (''publisher'', ''P5'')],
      [(''title'', ''Sixth'')]]"
  let ?tps = "[(''Profit up'', ''P1''), (''Shares fall'', ''P2''), (''New plant'', ''P3''),
          (''Dividend'', ''P4''), (''Merger'', ''P5'')]"
  have a: "map (\<lambda>item. (map_of item ''title'', map_of item ''publisher'')) (take 5 ?news)
     = map (\<lambda>(t, p). (Some t, Some p)) ?tps"
    by simp
  have b: "?news \<noteq> []" by simp
  show ?thesis
    using a b news_section_first_five [OF a b,
        of "\<lambda>t. \<lparr>neg = Fin 0, neu = Fin 1, pos = Fin 0,
                       compound = (if t = ''Profit up'' then Fin (3 / 5) else Fin 0)\<rparr>"]
    by (simp add: get_sentiment_def fl_ge_def Let_def)
qed



end
